theory Spec2Isabelle
  imports Complex_Main
begin

section \<open>Fine resolution request logging (haufe.requestmonitoring, timelogging.py)\<close>

text \<open>
  A shallow embedding of \<^verbatim>\<open>src/haufe/requestmonitoring/timelogging.py\<close>.
  Module globals whose Python names start with an underscore lose it, since an Isabelle
  name starts with a letter: \<^verbatim>\<open>_log_format\<close> is \<open>log_format\<close>,
  \<^verbatim>\<open>_log_time_format\<close> is \<open>log_time_format\<close>, \<^verbatim>\<open>_state\<close>,
  \<^verbatim>\<open>_logfile\<close> and \<^verbatim>\<open>_lock\<close> are the fields \<open>state\<close>,
  \<open>logfile\<close> and \<open>lock_held\<close> of the record \<open>world\<close>, and the function
  \<^verbatim>\<open>_log\<close> is \<open>log_line\<close> (\<open>log\<close> is the logarithm of HOL).
\<close>

subsection \<open>Python values, exceptions\<close>

text \<open>
  The values that reach the formatting operator and the attribute dictionary of a
  response. A Python float is modelled by the rational number it denotes; the rounding of
  float arithmetic is not modelled.
\<close>

datatype pyval = PNone | PInt int | PFloat rat | PStr string

datatype pyexc = KeyError | AssertionError | TypeError | ValueError | AttributeError

subsection \<open>Decimal rendering of numbers\<close>

definition digit_char :: "nat \<Rightarrow> char" where
  "digit_char d = ''0123456789'' ! d"

fun str_nat :: "nat \<Rightarrow> string" where
  "str_nat n = (if n < 10 then [digit_char n] else str_nat (n div 10) @ [digit_char (n mod 10)])"

declare str_nat.simps [simp del]

definition str_int :: "int \<Rightarrow> string" where
  "str_int i = (if i < 0 then CHR ''-'' # str_nat (nat (- i)) else str_nat (nat i))"

text \<open>Right-justification to a minimum width: a longer string is kept whole.\<close>

definition rjust :: "nat \<Rightarrow> char \<Rightarrow> string \<Rightarrow> string" where
  "rjust w c s = replicate (w - length s) c @ s"

text \<open>
  The conversion \<^verbatim>\<open>%.pf\<close>: the value rounded to \<open>p\<close> decimals, to nearest with ties to
  even (as the C library does on the exact value of the float), the sign, the integer
  part, and the point with \<open>p\<close> digits when \<open>p > 0\<close>.
\<close>

definition round_half_even :: "rat \<Rightarrow> int" where
  "round_half_even x =
     (let f = \<lfloor>x\<rfloor>; d = x - of_int f
      in if d < 1 / 2 then f else if 1 / 2 < d then f + 1 else if even f then f else f + 1)"

definition fmt_fixed :: "nat \<Rightarrow> rat \<Rightarrow> string" where
  "fmt_fixed p x =
     (let n = nat (round_half_even (\<bar>x\<bar> * 10 ^ p))
      in (if x < 0 then ''-'' else '''') @ str_nat (n div 10 ^ p) @
         (if p = 0 then '''' else CHR ''.'' # rjust p (CHR ''0'') (str_nat (n mod 10 ^ p))))"

subsection \<open>The string formatting operator\<close>

text \<open>
  \<^verbatim>\<open>fmt % args\<close> for the directives the module uses: an optional minimum width, an
  optional precision, and one of the conversions \<^verbatim>\<open>s d f c\<close> (and \<^verbatim>\<open>%%\<close>).
  The scanner walks the format string once; its state says whether it is in literal text,
  in the width or in the precision of a directive.
\<close>

definition is_digit :: "char \<Rightarrow> bool" where
  "is_digit c = (c \<in> set ''0123456789'')"

definition digit_val :: "char \<Rightarrow> nat" where
  "digit_val c = of_char c - 48"

datatype fstate = Lit | Width nat | Prec nat nat

definition py_str :: "pyval \<Rightarrow> string" where
  "py_str v = (case v of PNone \<Rightarrow> ''None'' | PInt i \<Rightarrow> str_int i
     | PFloat x \<Rightarrow> fmt_fixed 1 x | PStr s \<Rightarrow> s)"

text \<open>
  One conversion: \<open>w\<close> is the width, \<open>p\<close> the precision when one is given. \<^verbatim>\<open>%d\<close>
  truncates a float towards zero, \<^verbatim>\<open>%f\<close> has six decimals unless told otherwise,
  \<^verbatim>\<open>%c\<close> wants a string of length one or a code point.
\<close>

definition convert :: "char \<Rightarrow> nat \<Rightarrow> nat option \<Rightarrow> pyval \<Rightarrow> pyexc + string" where
  "convert c w p v =
     (if c = CHR ''s'' then
        Inr (rjust w (CHR '' '') (case p of None \<Rightarrow> py_str v | Some k \<Rightarrow> take k (py_str v)))
      else if c = CHR ''d'' then
        (case v of
           PInt i \<Rightarrow> Inr (rjust w (CHR '' '') (str_int i))
         | PFloat x \<Rightarrow>
             Inr (rjust w (CHR '' '') (str_int (if x < 0 then - \<lfloor>- x\<rfloor> else \<lfloor>x\<rfloor>)))
         | _ \<Rightarrow> Inl TypeError)
      else if c = CHR ''f'' then
        (case v of
           PInt i \<Rightarrow> Inr (rjust w (CHR '' '') (fmt_fixed (case p of None \<Rightarrow> 6 | Some k \<Rightarrow> k) (of_int i)))
         | PFloat x \<Rightarrow> Inr (rjust w (CHR '' '') (fmt_fixed (case p of None \<Rightarrow> 6 | Some k \<Rightarrow> k) x))
         | _ \<Rightarrow> Inl TypeError)
      else if c = CHR ''c'' then
        (case v of
           PStr s \<Rightarrow> if length s = 1 then Inr (rjust w (CHR '' '') s) else Inl TypeError
         | PInt i \<Rightarrow> if 0 \<le> i \<and> i < 256 then Inr (rjust w (CHR '' '') [char_of i]) else Inl TypeError
         | _ \<Rightarrow> Inl TypeError)
      else Inl ValueError)"

definition prepend :: "string \<Rightarrow> pyexc + string \<Rightarrow> pyexc + string" where
  "prepend s r = (case r of Inl e \<Rightarrow> Inl e | Inr t \<Rightarrow> Inr (s @ t))"

fun fmt_scan :: "fstate \<Rightarrow> string \<Rightarrow> pyval list \<Rightarrow> pyexc + string" where
  "fmt_scan Lit [] args = (if args = [] then Inr [] else Inl TypeError)"
| "fmt_scan Lit (c # cs) args =
     (if c = CHR ''%'' then fmt_scan (Width 0) cs args else prepend [c] (fmt_scan Lit cs args))"
| "fmt_scan (Width w) [] args = Inl ValueError"
| "fmt_scan (Width w) (c # cs) args =
     (if is_digit c then fmt_scan (Width (10 * w + digit_val c)) cs args
      else if c = CHR ''.'' then fmt_scan (Prec w 0) cs args
      else if c = CHR ''%'' then prepend ''%'' (fmt_scan Lit cs args)
      else (case args of
              [] \<Rightarrow> Inl TypeError
            | v # vs \<Rightarrow>
                (case convert c w None v of
                   Inl e \<Rightarrow> Inl e
                 | Inr s \<Rightarrow> prepend s (fmt_scan Lit cs vs))))"
| "fmt_scan (Prec w p) [] args = Inl ValueError"
| "fmt_scan (Prec w p) (c # cs) args =
     (if is_digit c then fmt_scan (Prec w (10 * p + digit_val c)) cs args
      else (case args of
              [] \<Rightarrow> Inl TypeError
            | v # vs \<Rightarrow>
                (case convert c w (Some p) v of
                   Inl e \<Rightarrow> Inl e
                 | Inr s \<Rightarrow> prepend s (fmt_scan Lit cs vs))))"

definition py_format :: "string \<Rightarrow> pyval list \<Rightarrow> pyexc + string" where
  "py_format fmt args = fmt_scan Lit fmt args"

subsection \<open>The clock: \<^verbatim>\<open>time.strftime\<close>\<close>

text \<open>
  The broken-down local time \<^verbatim>\<open>strftime\<close> reads, and the directives of
  \<^verbatim>\<open>_log_time_format\<close>: each a zero-padded decimal number of two digits.
\<close>

record tm =
  tm_year :: nat
  tm_mon :: nat
  tm_mday :: nat
  tm_hour :: nat
  tm_min :: nat
  tm_sec :: nat

definition pad2 :: "nat \<Rightarrow> string" where
  "pad2 n = rjust 2 (CHR ''0'') (str_nat n)"

definition directive :: "char \<Rightarrow> tm \<Rightarrow> string" where
  "directive c t =
     (if c = CHR ''y'' then pad2 (tm_year t mod 100)
      else if c = CHR ''m'' then pad2 (tm_mon t)
      else if c = CHR ''d'' then pad2 (tm_mday t)
      else if c = CHR ''H'' then pad2 (tm_hour t)
      else if c = CHR ''M'' then pad2 (tm_min t)
      else if c = CHR ''S'' then pad2 (tm_sec t)
      else if c = CHR ''%'' then ''%''
      else [CHR ''%'', c])"

fun strftime :: "string \<Rightarrow> tm \<Rightarrow> string" where
  "strftime [] t = []"
| "strftime [c] t = [c]"
| "strftime (c # d # cs) t =
     (if c = CHR ''%'' then directive d t @ strftime cs t else c # strftime (d # cs) t)"

subsection \<open>Module constants\<close>

definition log_format :: string where
  "log_format = ''%s %3d %10.4f %c %6d %s'' @ [CHR 0x0A]"

definition log_time_format :: string where
  "log_time_format = ''%y%m%dT%H%M%S''"

definition STDERR :: string where
  "STDERR = ''/dev/stderr''"

text \<open>
  \<^verbatim>\<open>str.strip()\<close>: whitespace is removed at both ends. A character is a code point below
  256; the white space among them is what \<^verbatim>\<open>str.isspace\<close> accepts there.
\<close>

definition is_space :: "char \<Rightarrow> bool" where
  "is_space c =
     (let n = (of_char c :: nat)
      in (9 \<le> n \<and> n \<le> 13) \<or> (28 \<le> n \<and> n \<le> 32) \<or> n = 133 \<or> n = 160)"

definition strip :: "string \<Rightarrow> string" where
  "strip s = rev (dropWhile is_space (rev (dropWhile is_space s)))"

subsection \<open>Requests, responses and publication events\<close>

text \<open>
  A response is an object: the request holds a reference to it, and the heap gives each
  reference the object's \<^verbatim>\<open>__dict__\<close>. The adapters \<^verbatim>\<open>ITicket\<close> and \<^verbatim>\<open>IInfo\<close>
  are external; \<open>ticket_id\<close> is \<^verbatim>\<open>ITicket(request).id\<close> and \<open>request_info\<close> is
  \<^verbatim>\<open>str(IInfo(request))\<close>. An exception class is known by its name.
\<close>

type_synonym attrs = "string \<rightharpoonup> pyval"

type_synonym exc_class = string

record request =
  ticket_id :: int
  request_info :: string
  response :: nat

datatype event =
    PubStart request
  | PubSuccess request
  | PubFailure request exc_class bool

fun event_request :: "event \<Rightarrow> request" where
  "event_request (PubStart r) = r"
| "event_request (PubSuccess r) = r"
| "event_request (PubFailure r x retry) = r"

text \<open>
  The collaborators the module calls on a response and does not define: the optional
  adapter \<^verbatim>\<open>IStatus\<close> (\<open>None\<close> when no adapter is registered, else the adapter's
  value as an integer), and the methods \<^verbatim>\<open>getStatus\<close> and \<^verbatim>\<open>setStatus\<close> of the
  response, which read and rewrite its attributes.
\<close>

record env =
  IStatus :: "attrs \<Rightarrow> int option"
  getStatus :: "attrs \<Rightarrow> int"
  setStatus :: "exc_class \<Rightarrow> attrs \<Rightarrow> attrs"

subsection \<open>Module state and effects\<close>

text \<open>
  \<^verbatim>\<open>_logfile\<close> is \<open>None\<close>, the string \<^verbatim>\<open>STDERR\<close> (\<open>LogStderr\<close>) or a
  \<^verbatim>\<open>Rotator\<close> on a file base. What the module does to the outside is kept in order in
  \<open>trace\<close>: a line written through the rotator, a message handed to the logger, a
  handler registered with \<^verbatim>\<open>provideHandler\<close>.
\<close>

datatype logsink = LogStderr | LogRotator string

datatype handler = H_start | H_success | H_failure

datatype effect =
    FileWrite string string
  | LoggerInfo string
  | ProvideHandler handler

record world =
  state :: "int \<rightharpoonup> rat"
  logfile :: "logsink option"
  lock_held :: bool
  heap :: "nat \<Rightarrow> attrs"
  trace :: "effect list"

text \<open>
  A call returns, raises, or never returns because it waits for a lock that is held. The
  world is part of each outcome: what a call has mutated before it raises stays mutated.
\<close>

datatype outcome = Return world | Raise pyexc world | Blocked world

subsection \<open>\<^verbatim>\<open>_log\<close>\<close>

text \<open>
  The argument \<open>t\<close> is the local time \<^verbatim>\<open>strftime\<close> reads. \<open>request_time\<close> is a
  Python value: the integer 0 or a float. Writes through the rotator and the logger are
  taken to succeed.
\<close>

definition log_line ::
  "tm \<Rightarrow> string \<Rightarrow> int \<Rightarrow> int \<Rightarrow> pyval \<Rightarrow> string \<Rightarrow> world \<Rightarrow> outcome" where
  "log_line t type status request_id request_time info w =
     (case py_format log_format
             [PStr (strftime log_time_format t), PInt status, request_time, PStr type,
              PInt request_id, PStr info] of
        Inl e \<Rightarrow> Raise e w
      | Inr string \<Rightarrow>
          (case logfile w of
             None \<Rightarrow> Return w
           | Some LogStderr \<Rightarrow> Return (w\<lparr>trace := trace w @ [LoggerInfo (strip string)]\<rparr>)
           | Some (LogRotator fb) \<Rightarrow> Return (w\<lparr>trace := trace w @ [FileWrite fb string]\<rparr>)))"

subsection \<open>\<^verbatim>\<open>account_request\<close>\<close>

text \<open>
  \<open>ct\<close> is what \<^verbatim>\<open>time()\<close> returns. The lock is taken before the table is touched
  and released by the \<^verbatim>\<open>finally\<close> clause on both ways out of the \<^verbatim>\<open>try\<close> block;
  the record is logged after the release.
\<close>

definition account_request :: "request \<Rightarrow> int \<Rightarrow> rat \<Rightarrow> tm \<Rightarrow> world \<Rightarrow> outcome" where
  "account_request request status ct t w =
     (let id = ticket_id request;
          info = request_info request;
          type = (if status \<noteq> 0 then ''-'' else ''+'')
      in if lock_held w then Blocked w
         else
           (let w1 = w\<lparr>lock_held := True\<rparr>
            in if status \<noteq> 0 then
                 (case state w1 id of
                    None \<Rightarrow> Raise KeyError (w1\<lparr>lock_held := False\<rparr>)
                  | Some t0 \<Rightarrow>
                      log_line t type status id (PFloat (ct - t0)) info
                        (w1\<lparr>state := (state w1)(id := None), lock_held := False\<rparr>))
               else
                 log_line t type status id (PInt 0) info
                   (w1\<lparr>state := (state w1)(id \<mapsto> ct), lock_held := False\<rparr>)))"

subsection \<open>\<^verbatim>\<open>start_timelogging\<close>\<close>

text \<open>
  \<open>config\<close> is the product configuration section \<^verbatim>\<open>timelogging\<close>, \<open>None\<close> when
  there is none. The event argument, which the function ignores, is left out.
\<close>

definition start_timelogging :: "(string \<rightharpoonup> string) option \<Rightarrow> tm \<Rightarrow> world \<Rightarrow> outcome" where
  "start_timelogging config t w =
     (case config of
        None \<Rightarrow> Return w
      | Some c \<Rightarrow>
          (case c ''filebase'' of
             None \<Rightarrow> Raise KeyError w
           | Some fb \<Rightarrow>
               (let w1 = w\<lparr>logfile := Some (if fb = STDERR then LogStderr else LogRotator fb)\<rparr>
                in case log_line t ''0'' 0 0 (PInt 0) ''restarted'' w1 of
                     Return w2 \<Rightarrow>
                       Return (w2\<lparr>trace := trace w2 @
                         [ProvideHandler H_start, ProvideHandler H_success,
                          ProvideHandler H_failure]\<rparr>)
                   | Raise e w2 \<Rightarrow> Raise e w2
                   | Blocked w2 \<Rightarrow> Blocked w2)))"

subsection \<open>The publication observers\<close>

definition handle_request_start :: "event \<Rightarrow> rat \<Rightarrow> tm \<Rightarrow> world \<Rightarrow> outcome" where
  "handle_request_start event ct t w = account_request (event_request event) 0 ct t w"

definition handle_request_success :: "env \<Rightarrow> event \<Rightarrow> rat \<Rightarrow> tm \<Rightarrow> world \<Rightarrow> outcome" where
  "handle_request_success e event ct t w =
     (let request = event_request event;
          response = heap w (response request);
          status = (case IStatus e response of
                      None \<Rightarrow> getStatus e response
                    | Some s \<Rightarrow> s)
      in if status = 0 then Raise AssertionError w
         else account_request request status ct t w)"

text \<open>
  Only a failure event has \<^verbatim>\<open>retry\<close> and \<^verbatim>\<open>exc_info\<close>. \<open>saved\<close> is the copy of
  the response's \<^verbatim>\<open>__dict__\<close>; \<^verbatim>\<open>update(saved)\<close> runs when the call of
  \<^verbatim>\<open>handle_request_success\<close> returns, and not when it raises.
\<close>

fun handle_request_failure :: "env \<Rightarrow> event \<Rightarrow> rat \<Rightarrow> tm \<Rightarrow> world \<Rightarrow> outcome" where
  "handle_request_failure e (PubFailure request exc retry) ct t w =
     (if retry then account_request request 390 ct t w
      else
        (let r = response request;
             saved = heap w r;
             w1 = w\<lparr>heap := (heap w)(r := setStatus e exc (heap w r))\<rparr>
         in case handle_request_success e (PubFailure request exc retry) ct t w1 of
              Return w2 \<Rightarrow> Return (w2\<lparr>heap := (heap w2)(r := heap w2 r ++ saved)\<rparr>)
            | Raise x w2 \<Rightarrow> Raise x w2
            | Blocked w2 \<Rightarrow> Blocked w2))"
| "handle_request_failure e (PubStart request) ct t w = Raise AttributeError w"
| "handle_request_failure e (PubSuccess request) ct t w = Raise AttributeError w"

text \<open>
  The framework hands an event to the observer registered for its kind; a run of events
  stops at the first one whose observer does not return.
\<close>

fun notify :: "env \<Rightarrow> event \<Rightarrow> rat \<Rightarrow> tm \<Rightarrow> world \<Rightarrow> outcome" where
  "notify e (PubStart r) ct t w = handle_request_start (PubStart r) ct t w"
| "notify e (PubSuccess r) ct t w = handle_request_success e (PubSuccess r) ct t w"
| "notify e (PubFailure r x retry) ct t w = handle_request_failure e (PubFailure r x retry) ct t w"

fun run :: "env \<Rightarrow> (event \<times> rat \<times> tm) list \<Rightarrow> world \<Rightarrow> outcome" where
  "run e [] w = Return w"
| "run e ((ev, ct, t) # evs) w =
     (case notify e ev ct t w of
        Return w' \<Rightarrow> run e evs w'
      | Raise x w' \<Rightarrow> Raise x w'
      | Blocked w' \<Rightarrow> Blocked w')"

text \<open>
  The module's globals outlive a call whatever its outcome: \<open>left\<close> is the world a call
  leaves behind, and \<open>serve\<close> hands out a sequence of events one call after the other,
  each on the world the one before has left. An exception leaves only the call it is
  raised in; the next event finds what that call had mutated.
\<close>

fun left :: "outcome \<Rightarrow> world" where
  "left (Return w) = w"
| "left (Raise x w) = w"
| "left (Blocked w) = w"

fun serve :: "env \<Rightarrow> (event \<times> rat \<times> tm) list \<Rightarrow> world \<Rightarrow> world" where
  "serve e [] w = w"
| "serve e ((ev, ct, t) # evs) w = serve e evs (left (notify e ev ct t w))"

subsection \<open>The documented record, and what reaches the sink\<close>

text \<open>
  The layout of a record as the module's documentation gives it, field by field:
  \<^verbatim>\<open>timestamp status request_time type request_id request_info\<close>, the status in
  width 3, the request time in width 10 with 4 decimals, one character for the type, the
  request id in width 6, and a newline at the end. The theorems compare it with what the
  format string \<open>log_format\<close> produces.
\<close>

definition record_layout :: "tm \<Rightarrow> int \<Rightarrow> rat \<Rightarrow> char \<Rightarrow> int \<Rightarrow> string \<Rightarrow> string" where
  "record_layout t status request_time kind request_id info =
     strftime log_time_format t @ '' '' @ rjust 3 (CHR '' '') (str_int status) @ '' '' @
     rjust 10 (CHR '' '') (fmt_fixed 4 request_time) @ '' '' @ [kind] @ '' '' @
     rjust 6 (CHR '' '') (str_int request_id) @ '' '' @ info @ [CHR 0x0A]"

text \<open>The effects one rendered line has, by the value of \<^verbatim>\<open>_logfile\<close>.\<close>

definition emitted :: "logsink option \<Rightarrow> string \<Rightarrow> effect list" where
  "emitted lf line =
     (case lf of
        None \<Rightarrow> []
      | Some LogStderr \<Rightarrow> [LoggerInfo (strip line)]
      | Some (LogRotator fb) \<Rightarrow> [FileWrite fb line])"

definition rstrip :: "string \<Rightarrow> string" where
  "rstrip s = rev (dropWhile is_space (rev s))"

text \<open>The module state when the process starts: no entry, no log file, the lock free.\<close>

definition initial_world :: "(nat \<Rightarrow> attrs) \<Rightarrow> world" where
  "initial_world h = \<lparr>state = Map.empty, logfile = None, lock_held = False, heap = h, trace = []\<rparr>"

subsection \<open>A concrete response class and concrete inputs\<close>

text \<open>
  For runs on concrete inputs: a response in the manner of the publisher's HTTP response.
  No \<^verbatim>\<open>IStatus\<close> adapter is registered, \<^verbatim>\<open>getStatus\<close> reads the attribute
  \<^verbatim>\<open>status\<close> (200 is the class default), and \<^verbatim>\<open>setStatus\<close> on an exception class
  stores the status code that belongs to its name, 500 when it has none, in \<^verbatim>\<open>status\<close>
  and the reason phrase of that code in \<^verbatim>\<open>errmsg\<close>.
\<close>

definition status_code :: "exc_class \<Rightarrow> int" where
  "status_code x =
     (if x = ''NotFound'' then 404 else if x = ''Unauthorized'' then 401
      else if x = ''Forbidden'' then 403 else 500)"

definition status_reason :: "int \<Rightarrow> string" where
  "status_reason c =
     (if c = 404 then ''Not Found'' else if c = 401 then ''Unauthorized''
      else if c = 403 then ''Forbidden'' else if c = 500 then ''Internal Server Error''
      else ''Unknown'')"

definition http_env :: env where
  "http_env =
     \<lparr>IStatus = (\<lambda>d. None),
      getStatus = (\<lambda>d. case d ''status'' of Some (PInt n) \<Rightarrow> n | _ \<Rightarrow> 200),
      setStatus = (\<lambda>x d. d(''status'' \<mapsto> PInt (status_code x),
                            ''errmsg'' \<mapsto> PStr (status_reason (status_code x))))\<rparr>"

definition example_tm :: tm where
  "example_tm = \<lparr>tm_year = 2026, tm_mon = 1, tm_mday = 5, tm_hour = 0, tm_min = 59, tm_sec = 7\<rparr>"

definition example_request :: request where
  "example_request = \<lparr>ticket_id = 7, request_info = ''GET /x'', response = 0\<rparr>"

definition other_request :: request where
  "other_request = \<lparr>ticket_id = 8, request_info = ''GET /y'', response = 1\<rparr>"

text \<open>
  A world after activation on a file base: every response object has status 200 and the
  message \<^verbatim>\<open>OK\<close>, and the table is given.
\<close>

definition ok_attrs :: attrs where
  "ok_attrs = [''status'' \<mapsto> PInt 200, ''errmsg'' \<mapsto> PStr ''OK'']"

definition example_world :: "(int \<rightharpoonup> rat) \<Rightarrow> world" where
  "example_world tbl =
     \<lparr>state = tbl, logfile = Some (LogRotator ''/var/log/timelog''), lock_held = False,
      heap = (\<lambda>r. ok_attrs), trace = []\<rparr>"

text \<open>
  The layout without its tail: everything before the separator that precedes
  \<^verbatim>\<open>request_info\<close>.
\<close>

definition record_body :: "tm \<Rightarrow> int \<Rightarrow> rat \<Rightarrow> char \<Rightarrow> int \<Rightarrow> string" where
  "record_body t status request_time kind request_id =
     strftime log_time_format t @ '' '' @ rjust 3 (CHR '' '') (str_int status) @ '' '' @
     rjust 10 (CHR '' '') (fmt_fixed 4 request_time) @ '' '' @ [kind] @ '' '' @
     rjust 6 (CHR '' '') (str_int request_id)"

text \<open>
  The status \<^verbatim>\<open>handle_request_success\<close> resolves from a response's attributes: the
  adapter's answer when there is one, the raw status otherwise.
\<close>

definition resolved_status :: "env \<Rightarrow> attrs \<Rightarrow> int" where
  "resolved_status e d = (case IStatus e d of None \<Rightarrow> getStatus e d | Some s \<Rightarrow> s)"

section \<open>Properties\<close>

subsection \<open>Rendering\<close>

lemma py_format_log_format:
  "py_format log_format [PStr ts, PInt st, PFloat rt, PStr [k], PInt rid, PStr info] =
     Inr (ts @ '' '' @ rjust 3 (CHR '' '') (str_int st) @ '' '' @
          rjust 10 (CHR '' '') (fmt_fixed 4 rt) @ '' '' @ [k] @ '' '' @
          rjust 6 (CHR '' '') (str_int rid) @ '' '' @ info @ [CHR 0x0A])"
  by (simp add: py_format_def log_format_def is_digit_def digit_val_def convert_def
      prepend_def py_str_def rjust_def)

lemma py_format_log_format_int:
  "py_format log_format [PStr ts, PInt st, PInt 0, PStr [k], PInt rid, PStr info] =
     Inr (ts @ '' '' @ rjust 3 (CHR '' '') (str_int st) @ '' '' @
          rjust 10 (CHR '' '') (fmt_fixed 4 0) @ '' '' @ [k] @ '' '' @
          rjust 6 (CHR '' '') (str_int rid) @ '' '' @ info @ [CHR 0x0A])"
  by (simp add: py_format_def log_format_def is_digit_def digit_val_def convert_def
      prepend_def py_str_def rjust_def)

lemma log_line_float:
  "log_line t [k] st rid (PFloat rt) info w =
     Return (w\<lparr>trace := trace w @ emitted (logfile w) (record_layout t st rt k rid info)\<rparr>)"
  by (simp add: log_line_def py_format_log_format record_layout_def emitted_def
      split: option.splits logsink.splits)

lemma log_line_int:
  "log_line t [k] st rid (PInt 0) info w =
     Return (w\<lparr>trace := trace w @ emitted (logfile w) (record_layout t st 0 k rid info)\<rparr>)"
  by (simp add: log_line_def py_format_log_format_int record_layout_def emitted_def
      split: option.splits logsink.splits)

lemma replicate_numeral: "replicate (numeral k) x = x # replicate (pred_numeral k) x"
  by (simp add: numeral_eq_Suc)

lemmas render_simps =
  record_layout_def log_time_format_def directive_def pad2_def rjust_def str_int_def
  str_nat.simps digit_char_def fmt_fixed_def round_half_even_def Let_def emitted_def
  replicate_numeral

subsection \<open>Accounting\<close>

lemma account_request_terminal:
  assumes "\<not> lock_held w" and "status \<noteq> 0"
  shows "account_request r status ct t w =
    (case state w (ticket_id r) of
       None \<Rightarrow> Raise KeyError w
     | Some t0 \<Rightarrow> Return (w\<lparr>state := (state w)(ticket_id r := None),
          trace := trace w @ emitted (logfile w)
            (record_layout t status (ct - t0) (CHR ''-'') (ticket_id r) (request_info r))\<rparr>))"
  using assms by (simp add: account_request_def Let_def log_line_float split: option.splits)

lemma account_request_start:
  assumes "\<not> lock_held w"
  shows "account_request r 0 ct t w =
     Return (w\<lparr>state := (state w)(ticket_id r \<mapsto> ct),
          trace := trace w @ emitted (logfile w)
            (record_layout t 0 0 (CHR ''+'') (ticket_id r) (request_info r))\<rparr>)"
  using assms by (simp add: account_request_def Let_def log_line_int)

subsection \<open>The retry sentinel\<close>

text \<open>
  Claim C3. A failure event with the retry flag set is accounted with status 390, whatever
  the exception class, the collaborators and the response are: when the request id has an
  open entry the handler returns, the one record it emits is a terminal record of status
  390, and when it has none the handler raises \<open>KeyError\<close> and emits no record at all.
\<close>

theorem retry_failure_status_390:
  assumes "\<not> lock_held w"
  shows "handle_request_failure e (PubFailure request exc True) ct t w =
     (case state w (ticket_id request) of
        None \<Rightarrow> Raise KeyError w
      | Some t0 \<Rightarrow>
          Return (w\<lparr>state := (state w)(ticket_id request := None),
            trace := trace w @ emitted (logfile w)
              (record_layout t 390 (ct - t0) (CHR ''-'') (ticket_id request)
                 (request_info request))\<rparr>))"
  using assms by (simp add: account_request_terminal)

theorem retry_failure_status_390_witness:
  "\<not> lock_held (example_world [7 \<mapsto> 100]) \<and>
   handle_request_failure http_env (PubFailure example_request ''NotFound'' True) (203 / 2)
       example_tm (example_world [7 \<mapsto> 100]) =
     Return ((example_world Map.empty)\<lparr>trace :=
       [FileWrite ''/var/log/timelog''
          (''260105T005907 390     1.5000 -      7 GET /x'' @ [CHR 0x0A])]\<rparr>)"
  using retry_failure_status_390 [of "example_world [7 \<mapsto> 100]" http_env example_request
      "''NotFound''" "203 / 2" example_tm]
  by (simp add: example_world_def example_request_def example_tm_def render_simps)

subsection \<open>The success observer\<close>

lemma handle_request_success_eq:
  assumes "\<not> lock_held w"
  shows "handle_request_success e ev ct t w =
     (let r = event_request ev; s = resolved_status e (heap w (response r))
      in if s = 0 then Raise AssertionError w
         else (case state w (ticket_id r) of
                 None \<Rightarrow> Raise KeyError w
               | Some t0 \<Rightarrow>
                   Return (w\<lparr>state := (state w)(ticket_id r := None),
                     trace := trace w @ emitted (logfile w)
                       (record_layout t s (ct - t0) (CHR ''-'') (ticket_id r) (request_info r))\<rparr>)))"
  using assms
  by (simp add: handle_request_success_def resolved_status_def Let_def account_request_terminal)

text \<open>
  Claim C4. On a success event the status is resolved from the \<^verbatim>\<open>IStatus\<close> adapter,
  or from the response's raw status when there is no adapter. A resolved status of zero
  makes the handler raise \<open>AssertionError\<close> with the world as it was: nothing is
  logged, the table keeps its entry, nothing is recovered. Any other resolved status is
  the status of the terminal record.
\<close>

theorem success_zero_status_asserts:
  assumes "\<not> lock_held w"
  shows "handle_request_success e ev ct t w =
     (let r = event_request ev; s = resolved_status e (heap w (response r))
      in if s = 0 then Raise AssertionError w
         else (case state w (ticket_id r) of
                 None \<Rightarrow> Raise KeyError w
               | Some t0 \<Rightarrow>
                   Return (w\<lparr>state := (state w)(ticket_id r := None),
                     trace := trace w @ emitted (logfile w)
                       (record_layout t s (ct - t0) (CHR ''-'') (ticket_id r) (request_info r))\<rparr>)))"
  using assms by (rule handle_request_success_eq)

theorem success_zero_status_asserts_witness:
  "\<not> lock_held (example_world [7 \<mapsto> 100]) \<and>
   resolved_status (http_env\<lparr>IStatus := \<lambda>d. Some 0\<rparr>)
     (heap (example_world [7 \<mapsto> 100]) (response example_request)) = 0 \<and>
   handle_request_success (http_env\<lparr>IStatus := \<lambda>d. Some 0\<rparr>) (PubSuccess example_request)
       (203 / 2) example_tm (example_world [7 \<mapsto> 100]) =
     Raise AssertionError (example_world [7 \<mapsto> 100]) \<and>
   handle_request_success http_env (PubSuccess example_request)
       (203 / 2) example_tm (example_world [7 \<mapsto> 100]) =
     Return ((example_world Map.empty)\<lparr>trace :=
       [FileWrite ''/var/log/timelog''
          (''260105T005907 200     1.5000 -      7 GET /x'' @ [CHR 0x0A])]\<rparr>)"
  using success_zero_status_asserts [where w = "example_world [7 \<mapsto> 100]"
      and e = "http_env\<lparr>IStatus := \<lambda>d. Some 0\<rparr>" and ev = "PubSuccess example_request"
      and ct = "203 / 2" and t = example_tm]
    success_zero_status_asserts [where w = "example_world [7 \<mapsto> 100]"
      and e = http_env and ev = "PubSuccess example_request" and ct = "203 / 2"
      and t = example_tm]
  by (simp add: example_world_def example_request_def example_tm_def http_env_def
      ok_attrs_def resolved_status_def render_simps)

subsection \<open>Terminal events without a start\<close>

lemma handle_request_failure_noretry:
  assumes "\<not> lock_held w"
  shows "handle_request_failure e (PubFailure r exc False) ct t w =
     (let forced = w\<lparr>heap := (heap w)(response r := setStatus e exc (heap w (response r)))\<rparr>;
          s = resolved_status e (setStatus e exc (heap w (response r)))
      in if s = 0 then Raise AssertionError forced
         else (case state w (ticket_id r) of
                 None \<Rightarrow> Raise KeyError forced
               | Some t0 \<Rightarrow>
                   Return (w\<lparr>state := (state w)(ticket_id r := None),
                     heap := (heap w)(response r := setStatus e exc (heap w (response r)) ++ heap w (response r)),
                     trace := trace w @ emitted (logfile w)
                       (record_layout t s (ct - t0) (CHR ''-'') (ticket_id r) (request_info r))\<rparr>)))"
  using assms
  by (simp add: handle_request_success_eq Let_def split: option.splits)

text \<open>
  Claim C5. A terminal event (a status other than zero) for a request id with no open
  entry raises \<open>KeyError\<close>. No observer catches it: it leaves the success observer and
  the failure observer, with and without retry, unless the zero-status assertion fails
  first. The trace and the table are those before the event: no record is emitted and no
  duration is made up.
\<close>

theorem terminal_without_start_raises:
  assumes "\<not> lock_held w" and "state w (ticket_id r) = None" and "status \<noteq> 0"
  shows "account_request r status ct t w = Raise KeyError w \<and>
     handle_request_success e (PubSuccess r) ct t w =
       (if resolved_status e (heap w (response r)) = 0 then Raise AssertionError w
        else Raise KeyError w) \<and>
     handle_request_failure e (PubFailure r exc True) ct t w = Raise KeyError w \<and>
     handle_request_failure e (PubFailure r exc False) ct t w =
       (if resolved_status e (setStatus e exc (heap w (response r))) = 0 then Raise AssertionError
        else Raise KeyError)
         (w\<lparr>heap := (heap w)(response r := setStatus e exc (heap w (response r)))\<rparr>)"
  using assms
  by (simp add: account_request_terminal handle_request_success_eq handle_request_failure_noretry Let_def)

theorem terminal_without_start_raises_witness:
  "\<not> lock_held (example_world Map.empty) \<and>
   state (example_world Map.empty) (ticket_id example_request) = None \<and>
   account_request example_request 200 (203 / 2) example_tm (example_world Map.empty) =
     Raise KeyError (example_world Map.empty) \<and>
   handle_request_success http_env (PubSuccess example_request) (203 / 2) example_tm
       (example_world Map.empty) = Raise KeyError (example_world Map.empty) \<and>
   handle_request_failure http_env (PubFailure example_request ''NotFound'' True) (203 / 2)
       example_tm (example_world Map.empty) = Raise KeyError (example_world Map.empty)"
  using terminal_without_start_raises [where w = "example_world Map.empty"
      and r = example_request and status = 200 and ct = "203 / 2" and t = example_tm
      and e = http_env and exc = "''NotFound''"]
  by (simp add: example_world_def example_request_def http_env_def ok_attrs_def
      resolved_status_def)

subsection \<open>Duplicate starts\<close>

text \<open>
  Claim C6. A start event for a request id that already has an open entry returns
  normally: the stored start time is replaced by the new one, a start record is emitted,
  and the terminal event that follows measures from the new start time; the earlier one
  is lost.
\<close>

theorem duplicate_start_overwrites:
  assumes "\<not> lock_held w" and "state w (ticket_id r) = Some t0" and "status \<noteq> 0"
  shows "let w' = w\<lparr>state := (state w)(ticket_id r \<mapsto> ct),
                     trace := trace w @ emitted (logfile w)
                       (record_layout t 0 0 (CHR ''+'') (ticket_id r) (request_info r))\<rparr>
         in handle_request_start (PubStart r) ct t w = Return w' \<and>
            state w' (ticket_id r) = Some ct \<and>
            account_request r status ct' t' w' =
              Return (w'\<lparr>state := (state w)(ticket_id r := None),
                trace := trace w' @ emitted (logfile w)
                  (record_layout t' status (ct' - ct) (CHR ''-'') (ticket_id r) (request_info r))\<rparr>)"
  using assms
  by (simp add: Let_def handle_request_start_def account_request_start account_request_terminal)

theorem duplicate_start_overwrites_witness:
  "\<not> lock_held (example_world [7 \<mapsto> 100]) \<and>
   state (example_world [7 \<mapsto> 100]) (ticket_id example_request) = Some 100 \<and>
   handle_request_start (PubStart example_request) 101 example_tm (example_world [7 \<mapsto> 100]) =
     Return ((example_world [7 \<mapsto> 101])\<lparr>trace :=
       [FileWrite ''/var/log/timelog''
          (''260105T005907   0     0.0000 +      7 GET /x'' @ [CHR 0x0A])]\<rparr>) \<and>
   account_request example_request 200 (203 / 2) example_tm
     ((example_world [7 \<mapsto> 101])\<lparr>trace :=
       [FileWrite ''/var/log/timelog''
          (''260105T005907   0     0.0000 +      7 GET /x'' @ [CHR 0x0A])]\<rparr>) =
     Return ((example_world Map.empty)\<lparr>trace :=
       [FileWrite ''/var/log/timelog''
          (''260105T005907   0     0.0000 +      7 GET /x'' @ [CHR 0x0A]),
        FileWrite ''/var/log/timelog''
          (''260105T005907 200     0.5000 -      7 GET /x'' @ [CHR 0x0A])]\<rparr>)"
  using duplicate_start_overwrites [where w = "example_world [7 \<mapsto> 100]"
      and r = example_request and ?t0.0 = 100 and status = 200 and ct = 101 and t = example_tm
      and ct' = "203 / 2" and t' = example_tm]
  by (simp add: example_world_def example_request_def example_tm_def render_simps)

subsection \<open>Activation\<close>

lemma start_timelogging_eq:
  assumes "c ''filebase'' = Some fb"
  shows "start_timelogging (Some c) t w =
     Return (w\<lparr>logfile := Some (if fb = STDERR then LogStderr else LogRotator fb),
       trace := trace w @
         [if fb = STDERR
          then LoggerInfo (strip (record_layout t 0 0 (CHR ''0'') 0 ''restarted''))
          else FileWrite fb (record_layout t 0 0 (CHR ''0'') 0 ''restarted''),
          ProvideHandler H_start, ProvideHandler H_success, ProvideHandler H_failure]\<rparr>)"
  using assms by (simp add: start_timelogging_def Let_def log_line_int emitted_def)

text \<open>
  Claim C1. Activation with a configuration that has the key \<^verbatim>\<open>filebase\<close> returns
  normally: it sets the log file, emits exactly one record, and then registers the three
  publication observers, in this order. The record has the info \<^verbatim>\<open>restarted\<close>, status
  0, request time 0 and request id 0, and its type character is \<^verbatim>\<open>0\<close>: the call is
  \<^verbatim>\<open>_log('0', info='restarted')\<close>, so the type field is the digit and not the
  \<^verbatim>\<open>+\<close> of a start record.
\<close>

theorem activation_restart_marker:
  assumes "c ''filebase'' = Some fb"
  shows "start_timelogging (Some c) t w =
     Return (w\<lparr>logfile := Some (if fb = STDERR then LogStderr else LogRotator fb),
       trace := trace w @
         [if fb = STDERR
          then LoggerInfo (strip (record_layout t 0 0 (CHR ''0'') 0 ''restarted''))
          else FileWrite fb (record_layout t 0 0 (CHR ''0'') 0 ''restarted''),
          ProvideHandler H_start, ProvideHandler H_success, ProvideHandler H_failure]\<rparr>)"
  using assms by (rule start_timelogging_eq)

theorem activation_restart_marker_witness:
  "[''filebase'' \<mapsto> ''/var/log/timelog''] ''filebase'' = Some ''/var/log/timelog'' \<and>
   start_timelogging (Some [''filebase'' \<mapsto> ''/var/log/timelog'']) example_tm
       (initial_world (\<lambda>r. Map.empty)) =
     Return ((initial_world (\<lambda>r. Map.empty))
       \<lparr>logfile := Some (LogRotator ''/var/log/timelog''),
        trace :=
          [FileWrite ''/var/log/timelog''
             (''260105T005907   0     0.0000 0      0 restarted'' @ [CHR 0x0A]),
           ProvideHandler H_start, ProvideHandler H_success, ProvideHandler H_failure]\<rparr>)"
  using activation_restart_marker [where c = "[''filebase'' \<mapsto> ''/var/log/timelog'']"
      and fb = "''/var/log/timelog''" and t = example_tm
      and w = "initial_world (\<lambda>r. Map.empty)"]
  by (simp add: initial_world_def example_tm_def STDERR_def render_simps)

theorem restart_marker_kind_counterexample:
  "start_timelogging (Some [''filebase'' \<mapsto> ''/var/log/timelog'']) example_tm
       (initial_world (\<lambda>r. Map.empty)) \<noteq>
     Return ((initial_world (\<lambda>r. Map.empty))
       \<lparr>logfile := Some (LogRotator ''/var/log/timelog''),
        trace :=
          [FileWrite ''/var/log/timelog''
             (record_layout example_tm 0 0 (CHR ''+'') 0 ''restarted''),
           ProvideHandler H_start, ProvideHandler H_success, ProvideHandler H_failure]\<rparr>)"
  by (simp add: start_timelogging_eq initial_world_def STDERR_def record_layout_def)

subsection \<open>Pairing of start and terminal events\<close>

lemma notify_left:
  assumes "\<not> lock_held w" and "ticket_id (event_request ev) \<noteq> i"
  shows "\<not> lock_held (left (notify e ev ct t w)) \<and>
         logfile (left (notify e ev ct t w)) = logfile w \<and>
         state (left (notify e ev ct t w)) i = state w i"
proof (cases ev)
  case (PubStart r)
  with assms show ?thesis
    by (simp add: handle_request_start_def account_request_start)
next
  case (PubSuccess r)
  with assms show ?thesis
    by (simp add: handle_request_success_eq Let_def split: option.splits)
next
  case (PubFailure r x retry)
  show ?thesis
  proof (cases retry)
    case True
    with assms PubFailure show ?thesis
      by (simp add: account_request_terminal split: option.splits)
  next
    case False
    with assms PubFailure show ?thesis
      by (simp add: handle_request_failure_noretry Let_def del: handle_request_failure.simps
          split: option.splits)
  qed
qed

lemma serve_others:
  assumes "\<not> lock_held w"
    and "\<forall>(ev, ct, t) \<in> set evs. ticket_id (event_request ev) \<noteq> i"
  shows "\<not> lock_held (serve e evs w) \<and> logfile (serve e evs w) = logfile w \<and>
         state (serve e evs w) i = state w i"
  using assms
proof (induction evs arbitrary: w)
  case Nil
  then show ?case by simp
next
  case (Cons a evs)
  obtain ev ct t where a: "a = (ev, ct, t)" by (cases a)
  from Cons.prems(2) a have other: "ticket_id (event_request ev) \<noteq> i"
    and others: "\<forall>(ev, ct, t) \<in> set evs. ticket_id (event_request ev) \<noteq> i"
    by auto
  from notify_left [OF Cons.prems(1) other, of e ct t]
  have w1: "\<not> lock_held (left (notify e ev ct t w))"
    "logfile (left (notify e ev ct t w)) = logfile w"
    "state (left (notify e ev ct t w)) i = state w i"
    by auto
  from Cons.IH [OF w1(1) others] w1 a show ?case by simp
qed

lemma run_serve:
  assumes "run e evs w = Return w'"
  shows "serve e evs w = w'"
  using assms
proof (induction evs arbitrary: w)
  case Nil
  then show ?case by simp
next
  case (Cons a evs)
  obtain ev ct t where a: "a = (ev, ct, t)" by (cases a)
  from Cons.prems a obtain w1 where
    step: "notify e ev ct t w = Return w1" and rest: "run e evs w1 = Return w'"
    by (auto split: outcome.splits)
  from Cons.IH [OF rest] step a show ?case by simp
qed

text \<open>The records and the response of the concrete runs below.\<close>

lemma start_record_7:
  "record_layout example_tm 0 0 (CHR ''+'') 7 ''GET /x'' =
     ''260105T005907   0     0.0000 +      7 GET /x'' @ [CHR 0x0A]"
  by (simp add: example_tm_def render_simps)

lemma start_record_8:
  "record_layout example_tm 0 0 (CHR ''+'') 8 ''GET /y'' =
     ''260105T005907   0     0.0000 +      8 GET /y'' @ [CHR 0x0A]"
  by (simp add: example_tm_def render_simps)

lemma terminal_record_390:
  "record_layout example_tm 390 (3 / 2) (CHR ''-'') 7 ''GET /x'' =
     ''260105T005907 390     1.5000 -      7 GET /x'' @ [CHR 0x0A]"
  by (simp add: example_tm_def render_simps)

lemma terminal_record_200:
  "record_layout example_tm 200 (3 / 2) (CHR ''-'') 7 ''GET /x'' =
     ''260105T005907 200     1.5000 -      7 GET /x'' @ [CHR 0x0A]"
  by (simp add: example_tm_def render_simps)

lemma terminal_record_404:
  "record_layout example_tm 404 (3 / 2) (CHR ''-'') 7 ''GET /x'' =
     ''260105T005907 404     1.5000 -      7 GET /x'' @ [CHR 0x0A]"
  by (simp add: example_tm_def render_simps)

lemma http_env_ok:
  "resolved_status http_env ok_attrs = 200"
  "resolved_status http_env (setStatus http_env ''NotFound'' ok_attrs) = 404"
  "setStatus http_env x ok_attrs ++ ok_attrs = ok_attrs"
  by (auto simp: resolved_status_def http_env_def ok_attrs_def status_code_def map_add_def
      split: option.splits)

lemma heap_ok_restored: "(\<lambda>r. ok_attrs)(i := ok_attrs) = (\<lambda>r. ok_attrs)"
  by (rule ext) simp

text \<open>
  Claim C8. A start event for a request id returns, stores the event's time under the id
  and emits a record of status 0, request time 0 and type \<^verbatim>\<open>+\<close>. Then come events
  for other request ids, each handed to its observer on the world the one before has left,
  whether that observer returned or raised. After them each kind of terminal event for the
  id returns: the failure event with retry, the success event and the failure event
  without retry (the last two when the status they resolve is not zero). Its record has
  type \<^verbatim>\<open>-\<close> and the terminal event's time minus the start event's time as request
  time, and the entry of the id is removed from the table.
\<close>

theorem start_terminal_pairing:
  assumes "\<not> lock_held w0"
    and "\<forall>(ev, ct, t) \<in> set evs. ticket_id (event_request ev) \<noteq> ticket_id r"
    and "ticket_id r' = ticket_id r"
  shows "let w1 = w0\<lparr>state := (state w0)(ticket_id r \<mapsto> t0),
                      trace := trace w0 @ emitted (logfile w0)
                        (record_layout tm0 0 0 (CHR ''+'') (ticket_id r) (request_info r))\<rparr>;
             w2 = serve e evs w1;
             terminal = (\<lambda>status. w2\<lparr>state := (state w2)(ticket_id r := None),
                      trace := trace w2 @ emitted (logfile w0)
                        (record_layout tm1 status (t1 - t0) (CHR ''-'') (ticket_id r)
                           (request_info r'))\<rparr>);
             s = resolved_status e (heap w2 (response r'));
             forced = setStatus e x (heap w2 (response r'))
         in notify e (PubStart r) t0 tm0 w0 = Return w1 \<and>
            state w2 (ticket_id r) = Some t0 \<and>
            notify e (PubFailure r' x True) t1 tm1 w2 = Return (terminal 390) \<and>
            (s \<noteq> 0 \<longrightarrow> notify e (PubSuccess r') t1 tm1 w2 = Return (terminal s)) \<and>
            (resolved_status e forced \<noteq> 0 \<longrightarrow>
               notify e (PubFailure r' x False) t1 tm1 w2 =
                 Return ((terminal (resolved_status e forced))
                   \<lparr>heap := (heap w2)(response r' := forced ++ heap w2 (response r'))\<rparr>))"
proof -
  define w1 where "w1 = w0\<lparr>state := (state w0)(ticket_id r \<mapsto> t0),
                      trace := trace w0 @ emitted (logfile w0)
                        (record_layout tm0 0 0 (CHR ''+'') (ticket_id r) (request_info r))\<rparr>"
  define w2 where "w2 = serve e evs w1"
  have start: "notify e (PubStart r) t0 tm0 w0 = Return w1"
    using assms(1) by (simp add: w1_def handle_request_start_def account_request_start)
  have "\<not> lock_held w1" using assms(1) by (simp add: w1_def)
  from serve_others [OF this assms(2), of e]
  have w2: "\<not> lock_held w2" "logfile w2 = logfile w0" "state w2 (ticket_id r') = Some t0"
    by (simp_all add: w2_def w1_def assms(3))
  have retry: "notify e (PubFailure r' x True) t1 tm1 w2 =
      Return (w2\<lparr>state := (state w2)(ticket_id r := None),
        trace := trace w2 @ emitted (logfile w0)
          (record_layout tm1 390 (t1 - t0) (CHR ''-'') (ticket_id r) (request_info r'))\<rparr>)"
    using w2 by (simp add: account_request_terminal assms(3))
  have success: "resolved_status e (heap w2 (response r')) \<noteq> 0 \<Longrightarrow>
      notify e (PubSuccess r') t1 tm1 w2 =
      Return (w2\<lparr>state := (state w2)(ticket_id r := None),
        trace := trace w2 @ emitted (logfile w0)
          (record_layout tm1 (resolved_status e (heap w2 (response r'))) (t1 - t0) (CHR ''-'')
             (ticket_id r) (request_info r'))\<rparr>)"
    using w2 by (simp add: handle_request_success_eq Let_def assms(3))
  have failure: "resolved_status e (setStatus e x (heap w2 (response r'))) \<noteq> 0 \<Longrightarrow>
      notify e (PubFailure r' x False) t1 tm1 w2 =
      Return (w2\<lparr>state := (state w2)(ticket_id r := None),
        trace := trace w2 @ emitted (logfile w0)
          (record_layout tm1 (resolved_status e (setStatus e x (heap w2 (response r'))))
             (t1 - t0) (CHR ''-'') (ticket_id r) (request_info r')),
        heap := (heap w2)(response r' :=
          setStatus e x (heap w2 (response r')) ++ heap w2 (response r'))\<rparr>)"
    using w2
    by (simp add: handle_request_failure_noretry Let_def assms(3)
        del: handle_request_failure.simps)
  from start retry success failure w2(3) show ?thesis
    unfolding Let_def w1_def [symmetric] w2_def [symmetric] by (simp add: assms(3))
qed

theorem start_terminal_pairing_witness:
  "\<not> lock_held (example_world Map.empty) \<and>
   ticket_id (event_request (PubSuccess other_request)) \<noteq> ticket_id example_request \<and>
   ticket_id (event_request (PubStart other_request)) \<noteq> ticket_id example_request \<and>
   notify http_env (PubStart example_request) 100 example_tm (example_world Map.empty) =
     Return ((example_world [7 \<mapsto> 100])\<lparr>trace :=
       [FileWrite ''/var/log/timelog''
          (''260105T005907   0     0.0000 +      7 GET /x'' @ [CHR 0x0A])]\<rparr>) \<and>
   notify http_env (PubSuccess other_request) (201 / 2) example_tm
     ((example_world [7 \<mapsto> 100])\<lparr>trace :=
       [FileWrite ''/var/log/timelog''
          (''260105T005907   0     0.0000 +      7 GET /x'' @ [CHR 0x0A])]\<rparr>) =
     Raise KeyError ((example_world [7 \<mapsto> 100])\<lparr>trace :=
       [FileWrite ''/var/log/timelog''
          (''260105T005907   0     0.0000 +      7 GET /x'' @ [CHR 0x0A])]\<rparr>) \<and>
   serve http_env
     [(PubSuccess other_request, 201 / 2, example_tm),
      (PubStart other_request, 401 / 4, example_tm)]
     ((example_world [7 \<mapsto> 100])\<lparr>trace :=
       [FileWrite ''/var/log/timelog''
          (''260105T005907   0     0.0000 +      7 GET /x'' @ [CHR 0x0A])]\<rparr>) =
     ((example_world [7 \<mapsto> 100, 8 \<mapsto> 401 / 4])\<lparr>trace :=
       [FileWrite ''/var/log/timelog''
          (''260105T005907   0     0.0000 +      7 GET /x'' @ [CHR 0x0A]),
        FileWrite ''/var/log/timelog''
          (''260105T005907   0     0.0000 +      8 GET /y'' @ [CHR 0x0A])]\<rparr>) \<and>
   notify http_env (PubFailure example_request ''NotFound'' True) (203 / 2) example_tm
     ((example_world [7 \<mapsto> 100, 8 \<mapsto> 401 / 4])\<lparr>trace :=
       [FileWrite ''/var/log/timelog''
          (''260105T005907   0     0.0000 +      7 GET /x'' @ [CHR 0x0A]),
        FileWrite ''/var/log/timelog''
          (''260105T005907   0     0.0000 +      8 GET /y'' @ [CHR 0x0A])]\<rparr>) =
     Return ((example_world ([7 \<mapsto> 100, 8 \<mapsto> 401 / 4](7 := None)))\<lparr>trace :=
       [FileWrite ''/var/log/timelog''
          (''260105T005907   0     0.0000 +      7 GET /x'' @ [CHR 0x0A]),
        FileWrite ''/var/log/timelog''
          (''260105T005907   0     0.0000 +      8 GET /y'' @ [CHR 0x0A]),
        FileWrite ''/var/log/timelog''
          (''260105T005907 390     1.5000 -      7 GET /x'' @ [CHR 0x0A])]\<rparr>) \<and>
   notify http_env (PubSuccess example_request) (203 / 2) example_tm
     ((example_world [7 \<mapsto> 100, 8 \<mapsto> 401 / 4])\<lparr>trace :=
       [FileWrite ''/var/log/timelog''
          (''260105T005907   0     0.0000 +      7 GET /x'' @ [CHR 0x0A]),
        FileWrite ''/var/log/timelog''
          (''260105T005907   0     0.0000 +      8 GET /y'' @ [CHR 0x0A])]\<rparr>) =
     Return ((example_world ([7 \<mapsto> 100, 8 \<mapsto> 401 / 4](7 := None)))\<lparr>trace :=
       [FileWrite ''/var/log/timelog''
          (''260105T005907   0     0.0000 +      7 GET /x'' @ [CHR 0x0A]),
        FileWrite ''/var/log/timelog''
          (''260105T005907   0     0.0000 +      8 GET /y'' @ [CHR 0x0A]),
        FileWrite ''/var/log/timelog''
          (''260105T005907 200     1.5000 -      7 GET /x'' @ [CHR 0x0A])]\<rparr>) \<and>
   notify http_env (PubFailure example_request ''NotFound'' False) (203 / 2) example_tm
     ((example_world [7 \<mapsto> 100, 8 \<mapsto> 401 / 4])\<lparr>trace :=
       [FileWrite ''/var/log/timelog''
          (''260105T005907   0     0.0000 +      7 GET /x'' @ [CHR 0x0A]),
        FileWrite ''/var/log/timelog''
          (''260105T005907   0     0.0000 +      8 GET /y'' @ [CHR 0x0A])]\<rparr>) =
     Return ((example_world ([7 \<mapsto> 100, 8 \<mapsto> 401 / 4](7 := None)))\<lparr>trace :=
       [FileWrite ''/var/log/timelog''
          (''260105T005907   0     0.0000 +      7 GET /x'' @ [CHR 0x0A]),
        FileWrite ''/var/log/timelog''
          (''260105T005907   0     0.0000 +      8 GET /y'' @ [CHR 0x0A]),
        FileWrite ''/var/log/timelog''
          (''260105T005907 404     1.5000 -      7 GET /x'' @ [CHR 0x0A])]\<rparr>)"
  using start_terminal_pairing [where ?w0.0 = "example_world Map.empty"
      and r = example_request and r' = example_request and ?t0.0 = 100 and ?tm0.0 = example_tm
      and e = http_env
      and evs = "[(PubSuccess other_request, 201 / 2, example_tm),
      (PubStart other_request, 401 / 4, example_tm)]"
      and x = "''NotFound''" and ?t1.0 = "203 / 2" and ?tm1.0 = example_tm]
  by (simp add: example_world_def example_request_def other_request_def
      handle_request_start_def account_request_start handle_request_success_eq
      http_env_ok emitted_def Let_def start_record_7 start_record_8 terminal_record_390
      terminal_record_200 terminal_record_404 heap_ok_restored)

subsection \<open>Digits, white space and the ends of a record\<close>

lemma digit_char_digit: "d < 10 \<Longrightarrow> digit_char d \<in> set ''0123456789''"
  using nth_mem [of d "''0123456789''"] by (simp add: digit_char_def)

lemma str_nat_digits: "set (str_nat n) \<subseteq> set ''0123456789''"
proof (induction n rule: str_nat.induct)
  case (1 n)
  show ?case
  proof (cases "n < 10")
    case True
    then show ?thesis
      using digit_char_digit [of n] by (subst str_nat.simps) simp
  next
    case False
    have "n mod 10 < 10" by simp
    with False 1 show ?thesis
      using digit_char_digit [of "n mod 10"] by (subst str_nat.simps) simp
  qed
qed

lemma str_nat_nonempty: "str_nat n \<noteq> []"
  by (subst str_nat.simps) simp

lemma digit_not_space: "c \<in> set ''0123456789'' \<Longrightarrow> \<not> is_space c"
  by (auto simp: is_space_def)

lemma last_str_nat_digit: "last (str_nat n) \<in> set ''0123456789''"
  using str_nat_digits [of n] last_in_set [OF str_nat_nonempty [of n]] by blast

lemma hd_str_nat_digit: "hd (str_nat n) \<in> set ''0123456789''"
  using str_nat_digits [of n] hd_in_set [OF str_nat_nonempty [of n]] by blast

lemma str_int_nonempty: "str_int i \<noteq> []"
  by (simp add: str_int_def str_nat_nonempty)

lemma last_str_int_digit: "last (str_int i) \<in> set ''0123456789''"
  using last_str_nat_digit by (simp add: str_int_def str_nat_nonempty del: set_simps)

lemma rjust_nonempty: "s \<noteq> [] \<Longrightarrow> rjust w c s \<noteq> []"
  by (simp add: rjust_def)

lemma last_rjust: "s \<noteq> [] \<Longrightarrow> last (rjust w c s) = last s"
  by (simp add: rjust_def)

lemma pad2_nonempty: "pad2 n \<noteq> []"
  by (simp add: pad2_def rjust_def str_nat_nonempty)

lemma hd_pad2_digit: "hd (pad2 n) \<in> set ''0123456789''"
proof (cases "2 - length (str_nat n)")
  case 0
  then show ?thesis
    using hd_str_nat_digit [of n] by (simp add: pad2_def rjust_def del: set_simps)
next
  case (Suc k)
  then show ?thesis by (simp add: pad2_def rjust_def)
qed

lemma strftime_log_time_format:
  "strftime log_time_format t =
     pad2 (tm_year t mod 100) @ pad2 (tm_mon t) @ pad2 (tm_mday t) @ ''T'' @
     pad2 (tm_hour t) @ pad2 (tm_min t) @ pad2 (tm_sec t)"
  by (simp add: log_time_format_def directive_def)

lemma record_layout_body:
  "record_layout t status rt kind rid info =
     record_body t status rt kind rid @ '' '' @ info @ [CHR 0x0A]"
  by (simp add: record_layout_def record_body_def)

lemma record_body_ends:
  "record_body t status rt kind rid \<noteq> [] \<and>
   \<not> is_space (hd (record_body t status rt kind rid)) \<and>
   \<not> is_space (last (record_body t status rt kind rid))"
proof -
  have "hd (record_body t status rt kind rid) = hd (pad2 (tm_year t mod 100))"
    by (simp add: record_body_def strftime_log_time_format pad2_nonempty)
  moreover have "last (record_body t status rt kind rid) = last (str_int rid)"
    by (simp add: record_body_def rjust_nonempty last_rjust str_int_nonempty)
  moreover have "record_body t status rt kind rid \<noteq> []"
    by (simp add: record_body_def)
  ultimately show ?thesis
    using digit_not_space [OF hd_pad2_digit] digit_not_space [OF last_str_int_digit]
    by simp
qed

lemma rstrip_append:
  assumes "a \<noteq> []" and "\<not> is_space (last a)"
  shows "rstrip (a @ b) = a @ rstrip b"
proof -
  from assms have keep: "dropWhile is_space (rev a) = rev a"
    by (cases a rule: rev_cases) simp_all
  show ?thesis
  proof (cases "\<forall>c \<in> set (rev b). is_space c")
    case True
    then have "dropWhile is_space (rev b) = []" by simp
    with True keep show ?thesis
      by (simp add: rstrip_def dropWhile_append)
  next
    case False
    then show ?thesis
      by (auto simp: rstrip_def dropWhile_append)
  qed
qed

lemma strip_append:
  assumes "a \<noteq> []" and "\<not> is_space (hd a)" and "\<not> is_space (last a)"
  shows "strip (a @ b) = a @ rstrip b"
proof -
  from assms(1,2) have "dropWhile is_space (a @ b) = a @ b"
    by (cases a) simp_all
  then have "strip (a @ b) = rstrip (a @ b)"
    by (simp add: strip_def rstrip_def)
  with rstrip_append [OF assms(1,3)] show ?thesis by simp
qed

lemma rstrip_snoc_space: "is_space c \<Longrightarrow> rstrip (s @ [c]) = rstrip s"
  by (simp add: rstrip_def)

lemma rstrip_last: "rstrip s \<noteq> [] \<Longrightarrow> \<not> is_space (last (rstrip s))"
  using hd_dropWhile [of is_space "rev s"] by (simp add: rstrip_def last_rev)

lemma newline_space: "is_space (CHR 0x0A)"
  by (simp add: is_space_def)

lemma strip_record_layout:
  "strip (record_layout t status rt kind rid info) =
     record_body t status rt kind rid @ rstrip ('' '' @ info)"
proof -
  have "rstrip ('' '' @ info @ [CHR 0x0A]) = rstrip ('' '' @ info)"
    using rstrip_snoc_space [OF newline_space, of "'' '' @ info"] by simp
  then show ?thesis
    using record_body_ends [of t status rt kind rid]
    by (simp add: record_layout_body strip_append del: append.simps)
qed

lemma strip_record_layout_last:
  "\<not> is_space (last (strip (record_layout t status rt kind rid info)))"
proof (cases "rstrip ('' '' @ info) = []")
  case True
  then show ?thesis
    using record_body_ends [of t status rt kind rid] by (simp add: strip_record_layout)
next
  case False
  then show ?thesis
    using rstrip_last [of "'' '' @ info"] by (simp add: strip_record_layout)
qed

lemma rstrip_space: "rstrip '' '' = []"
  by (simp add: rstrip_def is_space_def)

subsection \<open>The format of a record\<close>



lemma strftime_example: "strftime log_time_format example_tm = ''260105T005907''"
  by (simp add: example_tm_def log_time_format_def directive_def pad2_def rjust_def
      str_nat.simps digit_char_def replicate_numeral)



subsection \<open>The logger instead of a file, and no log file\<close>

lemma length_rstrip: "length (rstrip s) \<le> length s"
  using length_dropWhile_le [of is_space "rev s"] by (simp add: rstrip_def)

lemma stripped_differs:
  "record_body t status rt kind rid @ rstrip ('' '' @ info) \<noteq>
     record_layout t status rt kind rid info"
proof
  assume "record_body t status rt kind rid @ rstrip ('' '' @ info) =
     record_layout t status rt kind rid info"
  then have "rstrip ('' '' @ info) = '' '' @ info @ [CHR 0x0A]"
    by (simp add: record_layout_body)
  then have "length (rstrip ('' '' @ info)) = length ('' '' @ info) + 1"
    by simp
  with length_rstrip [of "'' '' @ info"] show False by simp
qed

lemma log_line_stderr:
  "log_line t [kind] status rid (PFloat rt) info (w\<lparr>logfile := Some LogStderr\<rparr>) =
     Return (w\<lparr>logfile := Some LogStderr, trace := trace w @
       [LoggerInfo (record_body t status rt kind rid @ rstrip ('' '' @ info))]\<rparr>)"
  by (simp add: log_line_float emitted_def strip_record_layout)

lemma log_line_stderr_int:
  "log_line t [kind] status rid (PInt 0) info (w\<lparr>logfile := Some LogStderr\<rparr>) =
     Return (w\<lparr>logfile := Some LogStderr, trace := trace w @
       [LoggerInfo (record_body t status 0 kind rid @ rstrip ('' '' @ info))]\<rparr>)"
  by (simp add: log_line_int emitted_def strip_record_layout)

lemma start_timelogging_stderr:
  "start_timelogging (Some [''filebase'' \<mapsto> STDERR]) t w =
     Return (w\<lparr>logfile := Some LogStderr, trace := trace w @
       [LoggerInfo (record_body t 0 0 (CHR ''0'') 0 @ '' restarted''),
        ProvideHandler H_start, ProvideHandler H_success, ProvideHandler H_failure]\<rparr>)"
proof -
  have "rstrip ('' '' @ ''restarted'') = '' restarted''"
    by (simp add: rstrip_def is_space_def)
  then show ?thesis
    using start_timelogging_eq [of "[''filebase'' \<mapsto> STDERR]" STDERR t w]
    by (simp add: strip_record_layout)
qed

text \<open>
  Claim C10. Activation with the file base \<^verbatim>\<open>/dev/stderr\<close> makes the logger the sink.
  A record then reaches the logger as one message, the rendered line with the white space
  at both ends removed: the fields up to the request id as rendered, then the separator
  and the info without their trailing white space. The newline is gone, and so is the
  separator when the info is empty; the message begins and ends with a character that is
  not white space, and it is never the line a rotator would have received. With no log
  file set, \<^verbatim>\<open>_log\<close> returns and emits nothing.
\<close>

theorem stderr_mode_strips:
  "start_timelogging (Some [''filebase'' \<mapsto> STDERR]) t w =
     Return (w\<lparr>logfile := Some LogStderr, trace := trace w @
       [LoggerInfo (record_body t 0 0 (CHR ''0'') 0 @ '' restarted''),
        ProvideHandler H_start, ProvideHandler H_success, ProvideHandler H_failure]\<rparr>) \<and>
   log_line t [kind] status request_id (PFloat request_time) info (w\<lparr>logfile := Some LogStderr\<rparr>) =
     Return (w\<lparr>logfile := Some LogStderr, trace := trace w @
       [LoggerInfo (record_body t status request_time kind request_id @ rstrip ('' '' @ info))]\<rparr>) \<and>
   log_line t [kind] status request_id (PInt 0) info (w\<lparr>logfile := Some LogStderr\<rparr>) =
     Return (w\<lparr>logfile := Some LogStderr, trace := trace w @
       [LoggerInfo (record_body t status 0 kind request_id @ rstrip ('' '' @ info))]\<rparr>) \<and>
   record_body t status request_time kind request_id @ rstrip ('' '' @ '''') =
     record_body t status request_time kind request_id \<and>
   \<not> is_space (hd (record_body t status request_time kind request_id @ rstrip ('' '' @ info))) \<and>
   \<not> is_space (last (record_body t status request_time kind request_id @ rstrip ('' '' @ info))) \<and>
   record_body t status request_time kind request_id @ rstrip ('' '' @ info) \<noteq>
     record_layout t status request_time kind request_id info \<and>
   log_line t [kind] status request_id (PFloat request_time) info (w\<lparr>logfile := None\<rparr>) =
     Return (w\<lparr>logfile := None\<rparr>) \<and>
   log_line t [kind] status request_id (PInt 0) info (w\<lparr>logfile := None\<rparr>) =
     Return (w\<lparr>logfile := None\<rparr>)"
proof -
  have empty: "record_body t status request_time kind request_id @ rstrip ('' '' @ '''') =
     record_body t status request_time kind request_id"
    by (simp add: rstrip_space)
  have first: "\<not> is_space (hd (record_body t status request_time kind request_id @
      rstrip ('' '' @ info)))"
    using record_body_ends [of t status request_time kind request_id] by simp
  have final: "\<not> is_space (last (record_body t status request_time kind request_id @
      rstrip ('' '' @ info)))"
    using strip_record_layout_last [of t status request_time kind request_id info]
    unfolding strip_record_layout .
  have none: "log_line t [kind] status request_id (PFloat request_time) info (w\<lparr>logfile := None\<rparr>) =
     Return (w\<lparr>logfile := None\<rparr>)"
    "log_line t [kind] status request_id (PInt 0) info (w\<lparr>logfile := None\<rparr>) =
     Return (w\<lparr>logfile := None\<rparr>)"
    by (simp_all add: log_line_float log_line_int emitted_def)
  from empty first final none show ?thesis
    using start_timelogging_stderr [of t w]
      log_line_stderr [of t kind status request_id request_time info w]
      log_line_stderr_int [of t kind status request_id info w]
      stripped_differs [of t status request_time kind request_id info]
    by blast
qed

theorem stderr_mode_strips_witness:
  "log_line example_tm ''-'' 200 7 (PFloat (3 / 2)) ''''
       ((example_world Map.empty)\<lparr>logfile := Some LogStderr\<rparr>) =
     Return ((example_world Map.empty)\<lparr>logfile := Some LogStderr,
       trace := [LoggerInfo ''260105T005907 200     1.5000 -      7'']\<rparr>) \<and>
   log_line example_tm ''-'' 200 7 (PFloat (3 / 2)) ''''
       ((example_world Map.empty)\<lparr>logfile := None\<rparr>) =
     Return ((example_world Map.empty)\<lparr>logfile := None\<rparr>)"
proof -
  have body: "record_body example_tm 200 (3 / 2) (CHR ''-'') 7 =
      ''260105T005907 200     1.5000 -      7''"
    by (simp add: record_body_def strftime_example rjust_def str_int_def str_nat.simps
        digit_char_def fmt_fixed_def round_half_even_def Let_def replicate_numeral)
  from stderr_mode_strips [where t = example_tm and kind = "CHR ''-''" and status = 200
      and request_id = 7 and request_time = "3 / 2" and info = "''''"
      and w = "example_world Map.empty"]
  show ?thesis
    by (simp add: body rstrip_space example_world_def)
qed

subsection \<open>The response after a failure event without retry\<close>

text \<open>
  Claim C2. What the failure observer does to the response when the event is not retried:
  it forces the status of the exception class on the response and calls the success
  observer. When that call returns, the saved attributes are written back over the forced
  ones. When it raises, for a status resolved to zero or for a request id with no open
  entry, the exception leaves the observer and the response keeps the forced attributes:
  the write-back is a statement after the call, not a \<^verbatim>\<open>finally\<close> clause.
\<close>

theorem failure_restore_skipped_on_raise:
  assumes "\<not> lock_held w"
  shows "handle_request_failure e (PubFailure r exc False) ct t w =
     (let forced = w\<lparr>heap := (heap w)(response r := setStatus e exc (heap w (response r)))\<rparr>;
          s = resolved_status e (setStatus e exc (heap w (response r)))
      in if s = 0 then Raise AssertionError forced
         else (case state w (ticket_id r) of
                 None \<Rightarrow> Raise KeyError forced
               | Some t0 \<Rightarrow>
                   Return (w\<lparr>state := (state w)(ticket_id r := None),
                     heap := (heap w)(response r := setStatus e exc (heap w (response r)) ++ heap w (response r)),
                     trace := trace w @ emitted (logfile w)
                       (record_layout t s (ct - t0) (CHR ''-'') (ticket_id r) (request_info r))\<rparr>)))"
  using assms by (rule handle_request_failure_noretry)

theorem failure_restore_skipped_on_raise_witness:
  "\<not> lock_held (example_world Map.empty) \<and>
   handle_request_failure http_env (PubFailure example_request ''NotFound'' False) (203 / 2)
       example_tm (example_world Map.empty) =
     Raise KeyError ((example_world Map.empty)\<lparr>heap := (\<lambda>r. ok_attrs)
       (0 := [''status'' \<mapsto> PInt 404, ''errmsg'' \<mapsto> PStr ''Not Found''])\<rparr>) \<and>
   heap (example_world Map.empty) 0 = [''status'' \<mapsto> PInt 200, ''errmsg'' \<mapsto> PStr ''OK''] \<and>
   handle_request_failure http_env (PubFailure example_request ''NotFound'' False) (203 / 2)
       example_tm (example_world [7 \<mapsto> 100]) =
     Return ((example_world Map.empty)\<lparr>trace :=
       [FileWrite ''/var/log/timelog''
          (''260105T005907 404     1.5000 -      7 GET /x'' @ [CHR 0x0A])]\<rparr>)"
proof -
  have raised: "handle_request_failure http_env (PubFailure example_request ''NotFound'' False)
       (203 / 2) example_tm (example_world Map.empty) =
     Raise KeyError ((example_world Map.empty)\<lparr>heap := (\<lambda>r. ok_attrs)
       (0 := [''status'' \<mapsto> PInt 404, ''errmsg'' \<mapsto> PStr ''Not Found''])\<rparr>)"
    using failure_restore_skipped_on_raise [where w = "example_world Map.empty"
        and e = http_env and r = example_request and exc = "''NotFound''" and ct = "203 / 2"
        and t = example_tm]
    by (simp add: example_world_def example_request_def http_env_def ok_attrs_def
        resolved_status_def status_code_def status_reason_def Let_def)
  have returned: "handle_request_failure http_env (PubFailure example_request ''NotFound'' False)
       (203 / 2) example_tm (example_world [7 \<mapsto> 100]) =
     Return ((example_world Map.empty)\<lparr>trace :=
       [FileWrite ''/var/log/timelog''
          (''260105T005907 404     1.5000 -      7 GET /x'' @ [CHR 0x0A])]\<rparr>)"
    using failure_restore_skipped_on_raise [where w = "example_world [7 \<mapsto> 100]"
        and e = http_env and r = example_request and exc = "''NotFound''" and ct = "203 / 2"
        and t = example_tm]
    by (simp add: example_world_def example_request_def http_env_ok emitted_def Let_def
        terminal_record_404 heap_ok_restored)
  from raised returned show ?thesis
    by (simp add: example_world_def ok_attrs_def)
qed

end
